theory Spec2Isabelle
  imports Complex_Main
begin

section \<open>Data model of the front end\<close>

text \<open>
  The types of the TypeScript declarations. A \<^verbatim>\<open>Date\<close> is its number of
  milliseconds since the epoch. A JavaScript \<^verbatim>\<open>number\<close> that counts documents or
  chunks is an \<^typ>\<open>int\<close>; one that holds a percentage, a rate or a duration is a
  \<^typ>\<open>real\<close> (IEEE rounding, NaN and the infinities are left out of the model).
  An optional field is an \<^typ>\<open>'a option\<close>, and so is a value that may be
  \<^verbatim>\<open>null\<close>. Field names carry a prefix where two interfaces share a name.
\<close>

type_synonym Date = nat

datatype WorkflowPhase = Input | Processing | Chat

datatype ProcessingPhase = Scraping | Parsing | Chunking | Vectorizing | Complete | Error

datatype TimeRange = Years1 | Years3 | Years5

datatype MessageType = User | Assistant

record Company =
  ticker :: string
  name :: string
  exchange :: string
  sector :: string
  industry :: string
  marketCap :: "real option"

record Citation =
  cit_id :: string
  documentTitle :: string
  cit_section :: string
  pageNumber :: "int option"
  excerpt :: string
  confidence :: real
  url :: "string option"

record Message =
  msg_id :: string
  content :: string
  msg_type :: MessageType
  msg_timestamp :: Date
  citations :: "Citation list option"
  isLoading :: "bool option"

record CompanyProcessingRequest =
  req_ticker :: string
  req_timeRange :: TimeRange

record ProcessingStatus =
  ps_ticker :: string
  phase :: ProcessingPhase
  progress :: real
  documentsFound :: int
  documentsProcessed :: int
  chunksCreated :: int
  chunksVectorized :: int
  estimatedTimeRemaining :: "real option"
  error :: "string option"
  startedAt :: Date
  completedAt :: "Date option"

record CompanyContext =
  cc_ticker :: string
  cc_name :: string
  cc_processingStatus :: ProcessingStatus
  documentsAvailable :: int
  timeRangeProcessed :: int

record WorkflowError =
  we_phase :: WorkflowPhase
  we_message :: string
  we_details :: "string option"
  we_timestamp :: Date
  recoverable :: bool

record ProcessingProgress =
  pp_phase :: ProcessingPhase
  pp_progress :: real
  currentStep :: string
  pp_estimatedTimeRemaining :: "real option"
  pp_documentsFound :: int
  pp_documentsProcessed :: int
  pp_chunksCreated :: int
  pp_chunksVectorized :: int

text \<open>The state fields of \<^verbatim>\<open>AppState\<close> (the actions are the functions below).\<close>

record AppState =
  currentPhase :: WorkflowPhase
  previousPhase :: "WorkflowPhase option"
  selectedTicker :: string
  selectedTimeRange :: TimeRange
  workflowError :: "WorkflowError option"
  processingStatus :: "ProcessingStatus option"
  processingProgress :: "ProcessingProgress option"
  processingJobId :: "string option"
  processingStartTime :: "Date option"
  processingEndTime :: "Date option"
  messages :: "Message list"
  currentSession :: string
  isTyping :: bool
  companyContext :: "CompanyContext option"
  chatEnabled :: bool
  selectedCompanies :: "Company list"
  companyCache :: "string \<rightharpoonup> Company"
  processedCompanies :: "string set"
  sidebarOpen :: bool
  citationPanelOpen :: bool
  currentCitation :: "Citation option"

text \<open>What a rejected promise carries: an \<^verbatim>\<open>Error\<close> with its message, or any other value.\<close>

datatype thrown = JsError string | JsOther

section \<open>The store (useAppStore)\<close>

definition initialState :: AppState where
  "initialState =
     \<lparr> currentPhase = Input, previousPhase = None, selectedTicker = [],
       selectedTimeRange = Years3, workflowError = None,
       processingStatus = None, processingProgress = None, processingJobId = None,
       processingStartTime = None, processingEndTime = None,
       messages = [], currentSession = [], isTyping = False, companyContext = None,
       chatEnabled = False,
       selectedCompanies = [], companyCache = Map.empty, processedCompanies = {},
       sidebarOpen = False, citationPanelOpen = False, currentCitation = None \<rparr>"

text \<open>
  \<^verbatim>\<open>processingStatus?.phase === 'complete'\<close> is false on \<^verbatim>\<open>null\<close>, and
  \<^verbatim>\<open>!!companyContext\<close> holds of every object.
\<close>

fun canTransitionTo :: "AppState \<Rightarrow> WorkflowPhase \<Rightarrow> bool" where
  "canTransitionTo s Input = True"
| "canTransitionTo s Processing = (currentPhase s = Input)"
| "canTransitionTo s Chat =
     (currentPhase s = Processing \<and>
      (case processingStatus s of None \<Rightarrow> False | Some st \<Rightarrow> phase st = Complete) \<and>
      companyContext s \<noteq> None)"

definition handleWorkflowError :: "WorkflowError \<Rightarrow> AppState \<Rightarrow> AppState" where
  "handleWorkflowError e s = s\<lparr>workflowError := Some e\<rparr>"

definition clearWorkflowError :: "AppState \<Rightarrow> AppState" where
  "clearWorkflowError s = s\<lparr>workflowError := None\<rparr>"

definition enableChat :: "AppState \<Rightarrow> AppState" where
  "enableChat s = s\<lparr>chatEnabled := True\<rparr>"

definition disableChat :: "AppState \<Rightarrow> AppState" where
  "disableChat s = s\<lparr>chatEnabled := False\<rparr>"

text \<open>\<^verbatim>\<open>setWorkflowPhase(phase, force)\<close> returns whether it moved, and the state.\<close>

definition setWorkflowPhase :: "WorkflowPhase \<Rightarrow> bool \<Rightarrow> AppState \<Rightarrow> bool \<times> AppState" where
  "setWorkflowPhase p force s =
     (if \<not> force \<and> \<not> canTransitionTo s p then (False, s)
      else (True, s\<lparr>previousPhase := Some (currentPhase s), currentPhase := p,
                     workflowError := None\<rparr>))"

text \<open>
  \<^verbatim>\<open>transitionToPhase\<close> has no \<^verbatim>\<open>await\<close>, so it runs to its end when called;
  nothing in its \<^verbatim>\<open>try\<close> block throws, so the \<^verbatim>\<open>catch\<close> has no branch here.
\<close>

definition transitionToPhase :: "WorkflowPhase \<Rightarrow> AppState \<Rightarrow> bool \<times> AppState" where
  "transitionToPhase p s =
     (if \<not> canTransitionTo s p then (False, s)
      else setWorkflowPhase p False
             (case p of
                Input \<Rightarrow> s\<lparr>processingStatus := None, processingProgress := None,
                             companyContext := None, chatEnabled := False\<rparr>
              | Processing \<Rightarrow> s
              | Chat \<Rightarrow> enableChat s))"

definition updateProcessingStatus :: "ProcessingStatus \<Rightarrow> AppState \<Rightarrow> AppState" where
  "updateProcessingStatus status s =
     (let s1 = s\<lparr>processingStatus := Some status\<rparr>
      in if phase status = Complete \<and> companyContext s1 \<noteq> None
         then snd (transitionToPhase Chat s1) else s1)"

definition markCompanyAsProcessed :: "string \<Rightarrow> AppState \<Rightarrow> AppState" where
  "markCompanyAsProcessed t s = s\<lparr>processedCompanies := insert t (processedCompanies s)\<rparr>"

definition isCompanyProcessed :: "AppState \<Rightarrow> string \<Rightarrow> bool" where
  "isCompanyProcessed s t = (t \<in> processedCompanies s)"

text \<open>\<open>now\<close> is the reading of \<^verbatim>\<open>new Date()\<close>.\<close>

definition completeProcessing :: "Date \<Rightarrow> CompanyContext \<Rightarrow> AppState \<Rightarrow> AppState" where
  "completeProcessing now ctx s =
     markCompanyAsProcessed (cc_ticker ctx)
       (s\<lparr>previousPhase := Some (currentPhase s), currentPhase := Chat,
          companyContext := Some ctx,
          processingStatus := Some (cc_processingStatus ctx),
          processingEndTime := Some now, chatEnabled := True, workflowError := None\<rparr>)"

text \<open>\<open>t1\<close> and \<open>t2\<close> are the two readings of \<^verbatim>\<open>new Date()\<close>, in order.\<close>

definition failProcessing :: "Date \<Rightarrow> Date \<Rightarrow> string \<Rightarrow> string option \<Rightarrow> AppState \<Rightarrow> AppState" where
  "failProcessing t1 t2 err details s =
     s\<lparr>processingStatus :=
          (case processingStatus s of
             None \<Rightarrow> None
           | Some st \<Rightarrow> Some (st\<lparr>phase := Error, error := Some err\<rparr>)),
       workflowError :=
          Some \<lparr>we_phase = Processing, we_message = err, we_details = details,
                we_timestamp = t1, recoverable = True\<rparr>,
       processingEndTime := Some t2\<rparr>"

definition resetWorkflow :: "AppState \<Rightarrow> AppState" where
  "resetWorkflow s =
     s\<lparr>currentPhase := Input, previousPhase := None, selectedTicker := [],
       selectedTimeRange := Years3, processingStatus := None, processingProgress := None,
       processingJobId := None, processingStartTime := None, processingEndTime := None,
       messages := [], companyContext := None, currentSession := [],
       chatEnabled := False, workflowError := None, processedCompanies := {}\<rparr>"

text \<open>
  \<^verbatim>\<open>startProcessing\<close>. \<open>api\<close> is the back end behind
  \<^verbatim>\<open>companyAPI.startProcessing\<close> (the job id it answers with, or what it rejects
  with); \<open>clk i\<close> is the \<open>i\<close>-th reading of the clock during the call. The result is
  the new state and the requests posted to the back end. The call is taken as one step:
  no other action runs while it awaits the answer.
\<close>

definition startProcessing ::
  "(CompanyProcessingRequest \<Rightarrow> thrown + string) \<Rightarrow> (nat \<Rightarrow> Date) \<Rightarrow>
   CompanyProcessingRequest \<Rightarrow> AppState \<Rightarrow> AppState \<times> CompanyProcessingRequest list" where
  "startProcessing api clk request s =
     (if \<not> canTransitionTo s Processing then (s, [])
      else
        let processingStartTime' = clk 0;
            s1 = s\<lparr>previousPhase := Some (currentPhase s),
                   currentPhase := Processing,
                   selectedTicker := req_ticker request,
                   selectedTimeRange := req_timeRange request,
                   processingStartTime := Some processingStartTime',
                   processingEndTime := None,
                   processingJobId := None,
                   workflowError := None,
                   processingStatus :=
                     Some \<lparr>ps_ticker = req_ticker request, phase = Scraping, progress = 0,
                           documentsFound = 0, documentsProcessed = 0, chunksCreated = 0,
                           chunksVectorized = 0, estimatedTimeRemaining = None,
                           error = None, startedAt = processingStartTime',
                           completedAt = None\<rparr>,
                   processingProgress :=
                     Some \<lparr>pp_phase = Scraping, pp_progress = 0,
                           currentStep = ''Initializing document scraping...'',
                           pp_estimatedTimeRemaining = None,
                           pp_documentsFound = 0, pp_documentsProcessed = 0,
                           pp_chunksCreated = 0, pp_chunksVectorized = 0\<rparr>,
                   messages := [],
                   companyContext := None,
                   chatEnabled := False\<rparr>
        in (case api request of
              Inr jobId \<Rightarrow> s1\<lparr>processingJobId := Some jobId\<rparr>
            | Inl e \<Rightarrow>
                failProcessing (clk 1) (clk 2)
                  (case e of JsError m \<Rightarrow> m | JsOther \<Rightarrow> ''Failed to start processing'')
                  (Some ''Check your network connection and try again'') s1,
            [request]))"

text \<open>
  \<^verbatim>\<open>Partial<ProcessingProgress>\<close>: \<open>None\<close> is a key that is absent, so the spread keeps
  the old value.
\<close>

record PartialProgress =
  part_phase :: "ProcessingPhase option"
  part_progress :: "real option"
  part_currentStep :: "string option"
  part_estimatedTimeRemaining :: "real option option"
  part_documentsFound :: "int option"
  part_documentsProcessed :: "int option"
  part_chunksCreated :: "int option"
  part_chunksVectorized :: "int option"

definition orElse :: "'a option \<Rightarrow> 'a \<Rightarrow> 'a" where
  "orElse v d = (case v of None \<Rightarrow> d | Some x \<Rightarrow> x)"

definition updateProcessingProgress :: "PartialProgress \<Rightarrow> AppState \<Rightarrow> AppState" where
  "updateProcessingProgress p s =
     s\<lparr>processingProgress :=
          (case processingProgress s of
             None \<Rightarrow> None
           | Some old \<Rightarrow>
               Some \<lparr>pp_phase = orElse (part_phase p) (pp_phase old),
                     pp_progress = orElse (part_progress p) (pp_progress old),
                     currentStep = orElse (part_currentStep p) (currentStep old),
                     pp_estimatedTimeRemaining =
                       orElse (part_estimatedTimeRemaining p) (pp_estimatedTimeRemaining old),
                     pp_documentsFound = orElse (part_documentsFound p) (pp_documentsFound old),
                     pp_documentsProcessed =
                       orElse (part_documentsProcessed p) (pp_documentsProcessed old),
                     pp_chunksCreated = orElse (part_chunksCreated p) (pp_chunksCreated old),
                     pp_chunksVectorized =
                       orElse (part_chunksVectorized p) (pp_chunksVectorized old)\<rparr>)\<rparr>"

text \<open>\<^verbatim>\<open>if (selectedTicker)\<close> holds of every string but the empty one.\<close>

definition retryFromError ::
  "(CompanyProcessingRequest \<Rightarrow> thrown + string) \<Rightarrow> (nat \<Rightarrow> Date) \<Rightarrow>
   AppState \<Rightarrow> AppState \<times> CompanyProcessingRequest list" where
  "retryFromError api clk s =
     (case workflowError s of
        None \<Rightarrow> (s, [])
      | Some we \<Rightarrow>
          if \<not> recoverable we then (s, [])
          else
            let s1 = clearWorkflowError s
            in (case we_phase we of
                  Processing \<Rightarrow>
                    if selectedTicker s \<noteq> []
                    then startProcessing api clk
                           \<lparr>req_ticker = selectedTicker s,
                            req_timeRange = selectedTimeRange s\<rparr> s1
                    else (s1, [])
                | _ \<Rightarrow> (s1, [])))"

subsection \<open>Chat actions\<close>

definition addMessage :: "Message \<Rightarrow> AppState \<Rightarrow> AppState" where
  "addMessage m s = s\<lparr>messages := messages s @ [m]\<rparr>"

definition setIsTyping :: "bool \<Rightarrow> AppState \<Rightarrow> AppState" where
  "setIsTyping b s = s\<lparr>isTyping := b\<rparr>"

text \<open>\<^verbatim>\<open>Number.prototype.toString\<close> on a natural number: its decimal digits.\<close>

fun toString :: "nat \<Rightarrow> string" where
  "toString n =
     (if n < 10 then [''0123456789'' ! n]
      else toString (n div 10) @ [''0123456789'' ! (n mod 10)])"

declare toString.simps [simp del]

text \<open>
  \<^verbatim>\<open>sendMessage\<close>. \<open>clk 0\<close> and \<open>clk 2\<close> are the readings of \<^verbatim>\<open>Date.now()\<close>,
  \<open>clk 1\<close> and \<open>clk 3\<close> those of \<^verbatim>\<open>new Date()\<close>. The body of the \<^verbatim>\<open>try\<close>
  makes no request (the call to the chat API is a comment) and builds a fixed
  assistant message, so the \<^verbatim>\<open>catch\<close> has no branch here.
\<close>

definition sendMessage :: "(nat \<Rightarrow> Date) \<Rightarrow> string \<Rightarrow> AppState \<Rightarrow> AppState" where
  "sendMessage clk message s =
     (if \<not> chatEnabled s \<or> companyContext s = None then s
      else
        let userMessage =
              \<lparr>msg_id = toString (clk 0), content = message, msg_type = User,
               msg_timestamp = clk 1, citations = None, isLoading = None\<rparr>;
            s1 = s\<lparr>messages := messages s @ [userMessage], isTyping := True\<rparr>;
            assistantMessage =
              \<lparr>msg_id = toString (clk 2 + 1),
               content = ''This is a placeholder response. The chat functionality will be implemented in later tasks.'',
               msg_type = Assistant, msg_timestamp = clk 3, citations = Some [],
               isLoading = None\<rparr>
        in s1\<lparr>messages := messages s1 @ [assistantMessage], isTyping := False\<rparr>)"

definition clearMessages :: "AppState \<Rightarrow> AppState" where
  "clearMessages s = s\<lparr>messages := []\<rparr>"

definition setCurrentSession :: "string \<Rightarrow> AppState \<Rightarrow> AppState" where
  "setCurrentSession sessionId s = s\<lparr>currentSession := sessionId\<rparr>"

subsection \<open>Company actions\<close>

text \<open>
  \<^verbatim>\<open>selectCompany\<close> returns the state itself when a company with the ticker is
  selected already.
\<close>

definition selectCompany :: "Company \<Rightarrow> AppState \<Rightarrow> AppState" where
  "selectCompany company s =
     (let isAlreadySelected = list_ex (\<lambda>c. ticker c = ticker company) (selectedCompanies s)
      in if isAlreadySelected then s
         else s\<lparr>selectedCompanies := selectedCompanies s @ [company],
                companyCache := (companyCache s)(ticker company \<mapsto> company)\<rparr>)"

definition removeSelectedCompany :: "string \<Rightarrow> AppState \<Rightarrow> AppState" where
  "removeSelectedCompany t s =
     s\<lparr>selectedCompanies := filter (\<lambda>c. ticker c \<noteq> t) (selectedCompanies s)\<rparr>"

definition clearSelectedCompanies :: "AppState \<Rightarrow> AppState" where
  "clearSelectedCompanies s = s\<lparr>selectedCompanies := []\<rparr>"

definition cacheCompany :: "Company \<Rightarrow> AppState \<Rightarrow> AppState" where
  "cacheCompany company s =
     s\<lparr>companyCache := (companyCache s)(ticker company \<mapsto> company)\<rparr>"

subsection \<open>UI actions\<close>

definition setSidebarOpen :: "bool \<Rightarrow> AppState \<Rightarrow> AppState" where
  "setSidebarOpen b s = s\<lparr>sidebarOpen := b\<rparr>"

definition openCitation :: "Citation \<Rightarrow> AppState \<Rightarrow> AppState" where
  "openCitation c s = s\<lparr>currentCitation := Some c, citationPanelOpen := True\<rparr>"

definition closeCitationPanel :: "AppState \<Rightarrow> AppState" where
  "closeCitationPanel s = s\<lparr>citationPanelOpen := False, currentCitation := None\<rparr>"

subsection \<open>Runs of the store\<close>

text \<open>Every action of the store, with its arguments, and the state after it.\<close>

datatype Action =
    StartProcessing "CompanyProcessingRequest \<Rightarrow> thrown + string" "nat \<Rightarrow> Date"
      CompanyProcessingRequest
  | UpdateProcessingStatus ProcessingStatus
  | UpdateProcessingProgress PartialProgress
  | CompleteProcessing Date CompanyContext
  | FailProcessing Date Date string "string option"
  | ResetWorkflow
  | SetWorkflowPhase WorkflowPhase bool
  | TransitionToPhase WorkflowPhase
  | HandleWorkflowError WorkflowError
  | ClearWorkflowError
  | RetryFromError "CompanyProcessingRequest \<Rightarrow> thrown + string" "nat \<Rightarrow> Date"
  | AddMessage Message
  | SetIsTyping bool
  | SendMessage "nat \<Rightarrow> Date" string
  | ClearMessages
  | SetCurrentSession string
  | EnableChat
  | DisableChat
  | SelectCompany Company
  | RemoveSelectedCompany string
  | ClearSelectedCompanies
  | CacheCompany Company
  | MarkCompanyAsProcessed string
  | SetSidebarOpen bool
  | OpenCitation Citation
  | CloseCitationPanel

fun act :: "Action \<Rightarrow> AppState \<Rightarrow> AppState" where
  "act (StartProcessing api clk request) s = fst (startProcessing api clk request s)"
| "act (UpdateProcessingStatus status) s = updateProcessingStatus status s"
| "act (UpdateProcessingProgress p) s = updateProcessingProgress p s"
| "act (CompleteProcessing now ctx) s = completeProcessing now ctx s"
| "act (FailProcessing t1 t2 err details) s = failProcessing t1 t2 err details s"
| "act ResetWorkflow s = resetWorkflow s"
| "act (SetWorkflowPhase p force) s = snd (setWorkflowPhase p force s)"
| "act (TransitionToPhase p) s = snd (transitionToPhase p s)"
| "act (HandleWorkflowError e) s = handleWorkflowError e s"
| "act ClearWorkflowError s = clearWorkflowError s"
| "act (RetryFromError api clk) s = fst (retryFromError api clk s)"
| "act (AddMessage m) s = addMessage m s"
| "act (SetIsTyping b) s = setIsTyping b s"
| "act (SendMessage clk message) s = sendMessage clk message s"
| "act ClearMessages s = clearMessages s"
| "act (SetCurrentSession sessionId) s = setCurrentSession sessionId s"
| "act EnableChat s = enableChat s"
| "act DisableChat s = disableChat s"
| "act (SelectCompany company) s = selectCompany company s"
| "act (RemoveSelectedCompany t) s = removeSelectedCompany t s"
| "act ClearSelectedCompanies s = clearSelectedCompanies s"
| "act (CacheCompany company) s = cacheCompany company s"
| "act (MarkCompanyAsProcessed t) s = markCompanyAsProcessed t s"
| "act (SetSidebarOpen b) s = setSidebarOpen b s"
| "act (OpenCitation c) s = openCitation c s"
| "act CloseCitationPanel s = closeCitationPanel s"

fun run :: "Action list \<Rightarrow> AppState \<Rightarrow> AppState" where
  "run [] s = s"
| "run (a # as) s = run as (act a s)"

section \<open>The status hook (useProcessingStatus)\<close>

text \<open>
  The two refs of the hook: the handle of the polling timer and the polling flag.
\<close>

record HookState =
  intervalRef :: "nat option"
  isPollingRef :: bool

definition stopPolling :: "HookState \<Rightarrow> HookState" where
  "stopPolling h = h\<lparr>intervalRef := None, isPollingRef := False\<rparr>"

text \<open>
  \<^verbatim>\<open>response.data\<close> of the status request: the status fields, with the two fields
  the hook reads beside them. Its dates are taken as parsed (\<^verbatim>\<open>new Date(...)\<close> of
  the JSON text).
\<close>

record StatusData =
  sd_status :: ProcessingStatus
  companyName :: "string option"
  sd_timeRangeProcessed :: "int option"

text \<open>
  \<^verbatim>\<open>fetchStatus\<close>, from the answer of the request on: \<open>response\<close> is the answer
  (\<open>Inl\<close> when the request is rejected), \<open>captured\<close> the \<^verbatim>\<open>processingStatus\<close> the
  callback closed over at the last render, \<open>now\<close> the clock read by
  \<^verbatim>\<open>completeProcessing\<close>. \<^verbatim>\<open>a || b\<close> is \<open>b\<close> when \<open>a\<close> is absent, the empty
  string or zero. The result is what the promise settles with, the store and the refs.
\<close>

definition fetchStatus ::
  "Date \<Rightarrow> ProcessingStatus option \<Rightarrow> thrown + StatusData \<Rightarrow> AppState \<times> HookState \<Rightarrow>
   (thrown + ProcessingStatus) \<times> AppState \<times> HookState" where
  "fetchStatus now captured response sh =
     (case sh of (s, h) \<Rightarrow>
        (case response of
           Inr d \<Rightarrow>
             let status = sd_status d;
                 s1 = updateProcessingStatus status s
             in if phase status = Complete
                then (Inr status,
                      completeProcessing now
                        \<lparr>cc_ticker = ps_ticker status,
                         cc_name = (case companyName d of
                                      None \<Rightarrow> ps_ticker status
                                    | Some n \<Rightarrow> if n = [] then ps_ticker status else n),
                         cc_processingStatus = status,
                         documentsAvailable = documentsProcessed status,
                         timeRangeProcessed =
                           (case sd_timeRangeProcessed d of
                              None \<Rightarrow> 3
                            | Some y \<Rightarrow> if y = 0 then 3 else y)\<rparr> s1,
                      stopPolling h)
                else if phase status = Error then (Inr status, s1, stopPolling h)
                else (Inr status, s1, h)
         | Inl e \<Rightarrow>
             (Inl e,
              (case captured of
                 None \<Rightarrow> s
               | Some ps \<Rightarrow>
                   updateProcessingStatus
                     (ps\<lparr>phase := Error,
                         error := Some ''Failed to fetch processing status''\<rparr>) s),
              stopPolling h)))"

text \<open>
  \<^verbatim>\<open>cancelProcessing\<close>, from the answer of the cancel request on; a rejected request
  is thrown again and nothing changes.
\<close>

definition cancelProcessing ::
  "ProcessingStatus option \<Rightarrow> thrown + unit \<Rightarrow> AppState \<times> HookState \<Rightarrow>
   (thrown + unit) \<times> AppState \<times> HookState" where
  "cancelProcessing captured response sh =
     (case sh of (s, h) \<Rightarrow>
        (case response of
           Inl e \<Rightarrow> (Inl e, s, h)
         | Inr u \<Rightarrow>
             (Inr (),
              (case captured of
                 None \<Rightarrow> s
               | Some ps \<Rightarrow>
                   updateProcessingStatus
                     (ps\<lparr>phase := Error,
                         error := Some ''Processing cancelled by user''\<rparr>) s),
              stopPolling h)))"

section \<open>The status panel (ProcessingStatusPanel)\<close>

text \<open>The keys of \<^verbatim>\<open>PHASE_STEPS\<close>, in order.\<close>

definition PHASE_STEPS :: "ProcessingPhase list" where
  "PHASE_STEPS = [Scraping, Parsing, Chunking, Vectorizing]"

text \<open>\<^verbatim>\<open>Array.prototype.findIndex\<close>: the first index that satisfies, or \<open>-1\<close>.\<close>

fun findIndexFrom :: "int \<Rightarrow> ('a \<Rightarrow> bool) \<Rightarrow> 'a list \<Rightarrow> int" where
  "findIndexFrom i P [] = - 1"
| "findIndexFrom i P (x # xs) = (if P x then i else findIndexFrom (i + 1) P xs)"

definition findIndex :: "('a \<Rightarrow> bool) \<Rightarrow> 'a list \<Rightarrow> int" where
  "findIndex P xs = findIndexFrom 0 P xs"

definition getCurrentStepIndex :: "ProcessingStatus \<Rightarrow> int" where
  "getCurrentStepIndex status = findIndex (\<lambda>step. step = phase status) PHASE_STEPS"

definition getPhaseProgress :: "ProcessingStatus \<Rightarrow> real" where
  "getPhaseProgress status =
     (let stepIndex = getCurrentStepIndex status
      in if stepIndex = - 1 then 0
         else
           let baseProgress = (real_of_int stepIndex / real (length PHASE_STEPS)) * 100;
               phaseProgress =
                 (case phase status of
                    Scraping \<Rightarrow>
                      if documentsFound status > 0
                      then (real_of_int (documentsProcessed status) /
                            real_of_int (documentsFound status)) *
                           (100 / real (length PHASE_STEPS))
                      else 0
                  | Parsing \<Rightarrow>
                      if documentsFound status > 0
                      then (real_of_int (documentsProcessed status) /
                            real_of_int (documentsFound status)) *
                           (100 / real (length PHASE_STEPS))
                      else 0
                  | Chunking \<Rightarrow>
                      if documentsProcessed status > 0
                      then (real_of_int (chunksCreated status) /
                            real_of_int (documentsProcessed status * 10)) *
                           (100 / real (length PHASE_STEPS))
                      else 0
                  | Vectorizing \<Rightarrow>
                      if chunksCreated status > 0
                      then (real_of_int (chunksVectorized status) /
                            real_of_int (chunksCreated status)) *
                           (100 / real (length PHASE_STEPS))
                      else 0
                  | _ \<Rightarrow> 0)
           in min (baseProgress + phaseProgress) 100)"

text \<open>
  \<^verbatim>\<open>calculateEstimatedTimeRemaining\<close>. \<open>processingRate\<close> and \<open>elapsedTime\<close> are the
  panel's own state (items per minute, whole seconds). \<^verbatim>\<open>if (status.estimatedTimeRemaining)\<close>
  holds of a number other than zero.
\<close>

definition calculateEstimatedTimeRemaining :: "real \<Rightarrow> int \<Rightarrow> ProcessingStatus \<Rightarrow> real option" where
  "calculateEstimatedTimeRemaining processingRate elapsedTime status =
     (if (case estimatedTimeRemaining status of None \<Rightarrow> False | Some e \<Rightarrow> e \<noteq> 0)
      then estimatedTimeRemaining status
      else if processingRate > 0 \<and> elapsedTime > 30 then
        (let progress' = getPhaseProgress status
         in if progress' > 0 \<and> progress' < 100
            then
              let remainingProgress = 100 - progress';
                  estimatedSeconds = (remainingProgress / progress') * real_of_int elapsedTime
              in Some (max estimatedSeconds 0)
            else None)
      else None)"

text \<open>
  What the panel decides and shows when it renders, from its props
  (\<^verbatim>\<open>enableRealTimeUpdates\<close>, whether \<^verbatim>\<open>onCancel\<close> is given, \<^verbatim>\<open>status\<close>) and its
  state (\<^verbatim>\<open>processingRate\<close>, \<^verbatim>\<open>elapsedTime\<close>): the estimate it prints beside the
  elapsed time (before rounding and formatting; \<^verbatim>\<open>estimated ? ... : null\<close> prints
  a number other than zero), the \<^verbatim>\<open>enabled\<close> flag it passes to the status hook, and
  whether it offers the cancel button.
\<close>

record PanelView =
  shownEstimate :: "real option"
  pollingEnabled :: bool
  cancelOffered :: bool

definition panelView :: "bool \<Rightarrow> bool \<Rightarrow> real \<Rightarrow> int \<Rightarrow> ProcessingStatus \<Rightarrow> PanelView" where
  "panelView enableRealTimeUpdates onCancelGiven processingRate elapsedTime status =
     (let isError = (phase status = Error);
          isComplete = (phase status = Complete)
      in \<lparr>shownEstimate =
             (if \<not> isComplete \<and> \<not> isError
              then (case calculateEstimatedTimeRemaining processingRate elapsedTime status of
                      None \<Rightarrow> None
                    | Some estimated \<Rightarrow> if estimated \<noteq> 0 then Some estimated else None)
              else None),
           pollingEnabled =
             (enableRealTimeUpdates \<and> phase status \<noteq> Complete \<and> phase status \<noteq> Error),
           cancelOffered = (onCancelGiven \<and> \<not> isComplete \<and> \<not> isError)\<rparr>)"

section \<open>The query engine of the design document (FinancialRAGEngine)\<close>









section \<open>Vocabulary of the specification\<close>

text \<open>
  A job of the identity of \<open>request\<close> is in progress in the store: there is a status
  for its ticker and time range whose phase is not terminal.
\<close>

definition jobInProgress :: "AppState \<Rightarrow> CompanyProcessingRequest \<Rightarrow> bool" where
  "jobInProgress s request =
     (case processingStatus s of
        None \<Rightarrow> False
      | Some st \<Rightarrow> phase st \<noteq> Complete \<and> phase st \<noteq> Error \<and>
          ps_ticker st = req_ticker request \<and> selectedTimeRange s = req_timeRange request)"

text \<open>
  The fixed order of the phases: each phase has one successor, and every phase that is
  not \<open>Complete\<close> may fail into \<open>Error\<close>. A list of phases moves forward only when each
  phase is followed by itself, by its successor or by such a failure.
\<close>

fun nextPhase :: "ProcessingPhase \<Rightarrow> ProcessingPhase option" where
  "nextPhase Scraping = Some Parsing"
| "nextPhase Parsing = Some Chunking"
| "nextPhase Chunking = Some Vectorizing"
| "nextPhase Vectorizing = Some Complete"
| "nextPhase Complete = None"
| "nextPhase Error = None"

definition forwardStep :: "ProcessingPhase \<Rightarrow> ProcessingPhase \<Rightarrow> bool" where
  "forwardStep p q = (q = p \<or> nextPhase p = Some q \<or> (q = Error \<and> p \<noteq> Complete))"

fun forwardOnly :: "ProcessingPhase list \<Rightarrow> bool" where
  "forwardOnly (p # q # ps) = (forwardStep p q \<and> forwardOnly (q # ps))"
| "forwardOnly ps = True"

text \<open>
  The phases a reader of the store sees over a sequence of calls of
  \<^verbatim>\<open>updateProcessingStatus\<close>: the phase of the stored status after each call.
\<close>

fun observedPhases :: "ProcessingStatus list \<Rightarrow> AppState \<Rightarrow> ProcessingPhase list" where
  "observedPhases [] s = []"
| "observedPhases (status # rest) s =
     (case processingStatus (updateProcessingStatus status s) of
        None \<Rightarrow> []
      | Some st \<Rightarrow> [phase st]) @ observedPhases rest (updateProcessingStatus status s)"

definition countersConsistent :: "ProcessingStatus \<Rightarrow> bool" where
  "countersConsistent st =
     (documentsProcessed st \<le> documentsFound st \<and> chunksVectorized st \<le> chunksCreated st)"

definition snapshotConsistent :: "AppState \<Rightarrow> bool" where
  "snapshotConsistent s =
     (case processingStatus s of None \<Rightarrow> True | Some st \<Rightarrow> countersConsistent st)"

text \<open>The four counters of a status, and the states of the store after each action of a run.\<close>

definition counters :: "ProcessingStatus \<Rightarrow> int \<times> int \<times> int \<times> int" where
  "counters st =
     (documentsFound st, documentsProcessed st, chunksCreated st, chunksVectorized st)"

fun states :: "Action list \<Rightarrow> AppState \<Rightarrow> AppState list" where
  "states [] s = []"
| "states (a # as) s = act a s # states as (act a s)"

text \<open>An action hands the store only statuses whose counters are consistent.\<close>

fun suppliesConsistent :: "Action \<Rightarrow> bool" where
  "suppliesConsistent (UpdateProcessingStatus status) = countersConsistent status"
| "suppliesConsistent (CompleteProcessing now ctx) =
     countersConsistent (cc_processingStatus ctx)"
| "suppliesConsistent a = True"



section \<open>Example inputs\<close>

definition exampleRequest :: CompanyProcessingRequest where
  "exampleRequest = \<lparr>req_ticker = ''ACME'', req_timeRange = Years3\<rparr>"

text \<open>A back end that accepts every request and answers with the job id \<open>jobId\<close>.\<close>

definition backend :: "string \<Rightarrow> CompanyProcessingRequest \<Rightarrow> thrown + string" where
  "backend jobId request = Inr jobId"

text \<open>A clock whose \<open>i\<close>-th reading is \<open>t + i\<close>.\<close>

definition clockFrom :: "Date \<Rightarrow> nat \<Rightarrow> Date" where
  "clockFrom t i = t + i"

definition exampleStatus :: "ProcessingPhase \<Rightarrow> int \<Rightarrow> int \<Rightarrow> int \<Rightarrow> int \<Rightarrow> ProcessingStatus" where
  "exampleStatus p found processed created vectorized =
     \<lparr>ps_ticker = ''ACME'', phase = p, progress = 0, documentsFound = found,
      documentsProcessed = processed, chunksCreated = created,
      chunksVectorized = vectorized, estimatedTimeRemaining = None, error = None,
      startedAt = 1000, completedAt = None\<rparr>"

definition exampleContext :: CompanyContext where
  "exampleContext =
     \<lparr>cc_ticker = ''ACME'', cc_name = ''Acme Corp'',
      cc_processingStatus = exampleStatus Complete 12 11 40 40,
      documentsAvailable = 11, timeRangeProcessed = 3\<rparr>"

definition exampleCompany :: Company where
  "exampleCompany =
     \<lparr>ticker = ''ACME'', name = ''Acme Corp'', exchange = ''NYSE'', sector = ''Industrials'',
      industry = ''Machinery'', marketCap = None\<rparr>"

definition exampleRefs :: HookState where
  "exampleRefs = \<lparr>intervalRef = Some 1, isPollingRef = True\<rparr>"

text \<open>The store after \<^verbatim>\<open>startProcessing\<close> of the example request, accepted as job 1.\<close>

definition processingState :: AppState where
  "processingState =
     run [StartProcessing (backend ''job-1'') (clockFrom 1000) exampleRequest] initialState"

text \<open>
  The store once the job is complete and a status of the chunking phase has arrived
  after that.
\<close>

definition staleChatState :: AppState where
  "staleChatState =
     run [CompleteProcessing 5000 exampleContext,
          UpdateProcessingStatus (exampleStatus Chunking 12 11 40 0)] processingState"





section \<open>Properties\<close>

lemmas example_defs =
  exampleRequest_def backend_def clockFrom_def exampleStatus_def exampleContext_def
  exampleCompany_def exampleRefs_def processingState_def initialState_def
  staleChatState_def

lemmas store_defs =
  startProcessing_def failProcessing_def setWorkflowPhase_def transitionToPhase_def
  enableChat_def updateProcessingStatus_def completeProcessing_def
  markCompanyAsProcessed_def sendMessage_def Let_def

subsection \<open>Starting a job\<close>

lemma startProcessing_again:
  "startProcessing api' clk' request' (fst (startProcessing api clk request s)) =
     (fst (startProcessing api clk request s), [])"
  by (simp add: startProcessing_def Let_def failProcessing_def split: sum.splits)

text \<open>
  C1 (as amended). \<^verbatim>\<open>startProcessing\<close> is guarded by the workflow phase, not by the
  identity of the job: when \<^verbatim>\<open>canTransitionTo('processing')\<close> fails, which is
  whenever the workflow is not in the input phase, it returns the state as it is (so
  the job id stays) and posts no request; in particular a call that follows another
  call of \<^verbatim>\<open>startProcessing\<close> directly changes nothing and starts no second job,
  whatever its request.
\<close>

theorem startProcessing_guard:
  "(\<not> canTransitionTo s Processing \<longrightarrow> startProcessing api clk request s = (s, [])) \<and>
   (canTransitionTo s Processing \<longleftrightarrow> currentPhase s = Input) \<and>
   startProcessing api' clk' request' (fst (startProcessing api clk request s)) =
     (fst (startProcessing api clk request s), [])"
  by (simp add: startProcessing_again) (simp add: startProcessing_def)

theorem startProcessing_guard_witness:
  "\<not> canTransitionTo processingState Processing \<and>
   jobInProgress processingState exampleRequest \<and>
   processingJobId processingState = Some ''job-1'' \<and>
   startProcessing (backend ''job-2'') (clockFrom 2000) exampleRequest processingState =
     (processingState, [])"
  using startProcessing_guard
    [of processingState "backend ''job-2''" "clockFrom 2000" exampleRequest]
  by (simp add: example_defs store_defs jobInProgress_def)

text \<open>
  The claim as it stands fails where a job is in progress and the workflow is back in
  the input phase: after \<^verbatim>\<open>startProcessing\<close> and \<^verbatim>\<open>setWorkflowPhase('input')\<close> the
  stored status of ACME is still in its scraping phase under job 1, and
  \<^verbatim>\<open>startProcessing\<close> of the same request posts it again and stores job 2.
\<close>

theorem startProcessing_second_job_counterexample:
  "jobInProgress (run [SetWorkflowPhase Input False] processingState) exampleRequest \<and>
   processingJobId (run [SetWorkflowPhase Input False] processingState) = Some ''job-1'' \<and>
   snd (startProcessing (backend ''job-2'') (clockFrom 2000) exampleRequest
          (run [SetWorkflowPhase Input False] processingState)) = [exampleRequest] \<and>
   processingJobId
     (fst (startProcessing (backend ''job-2'') (clockFrom 2000) exampleRequest
             (run [SetWorkflowPhase Input False] processingState))) = Some ''job-2''"
  by (simp add: example_defs store_defs jobInProgress_def)

subsection \<open>Entering the chat\<close>








subsection \<open>Status snapshots\<close>

lemma updateProcessingStatus_stores:
  "processingStatus (updateProcessingStatus status s) = Some status"
  by (simp add: updateProcessingStatus_def Let_def transitionToPhase_def setWorkflowPhase_def
      enableChat_def)

lemma completeProcessing_stores:
  "processingStatus (completeProcessing now ctx s) = Some (cc_processingStatus ctx)"
  by (simp add: completeProcessing_def markCompanyAsProcessed_def)

text \<open>
  C3 (as amended). \<^verbatim>\<open>updateProcessingStatus\<close> stores the status it is given and
  checks no order: over every sequence of updates the phases observed are the phases
  supplied, one for one, so they move forward in the fixed order without a skip
  whenever the supplied statuses do.
\<close>

theorem observedPhases_as_supplied:
  "observedPhases sts s = map phase sts \<and>
   (forwardOnly (map phase sts) \<longrightarrow> forwardOnly (observedPhases sts s))"
proof -
  have "observedPhases sts s = map phase sts"
    by (induction sts arbitrary: s) (simp_all add: updateProcessingStatus_stores)
  then show ?thesis by simp
qed

theorem observedPhases_as_supplied_witness:
  "forwardOnly (map phase [exampleStatus Scraping 0 0 0 0, exampleStatus Parsing 12 0 0 0,
      exampleStatus Error 12 0 0 0]) \<and>
   forwardOnly (observedPhases [exampleStatus Scraping 0 0 0 0, exampleStatus Parsing 12 0 0 0,
      exampleStatus Error 12 0 0 0] processingState) \<and>
   observedPhases [exampleStatus Scraping 0 0 0 0, exampleStatus Parsing 12 0 0 0,
      exampleStatus Error 12 0 0 0] processingState = [Scraping, Parsing, Error]"
  using observedPhases_as_supplied
    [of "[exampleStatus Scraping 0 0 0 0, exampleStatus Parsing 12 0 0 0,
          exampleStatus Error 12 0 0 0]" processingState]
  by (simp add: exampleStatus_def forwardStep_def)

text \<open>
  The claim as it stands fails on statuses that arrive out of order: a scraping status
  after a vectorizing one is stored and observed (a regression), and a vectorizing
  status after a scraping one is stored too (two phases skipped).
\<close>

theorem phase_regression_counterexample:
  "observedPhases [exampleStatus Vectorizing 12 11 40 7, exampleStatus Scraping 12 11 40 7]
     processingState = [Vectorizing, Scraping] \<and>
   \<not> forwardOnly [Vectorizing, Scraping] \<and>
   observedPhases [exampleStatus Scraping 12 0 0 0, exampleStatus Vectorizing 12 11 40 7]
     processingState = [Scraping, Vectorizing] \<and>
   \<not> forwardOnly [Scraping, Vectorizing]"
  by (simp add: example_defs store_defs forwardStep_def)

lemma startProcessing_counters:
  "canTransitionTo s Processing \<Longrightarrow>
   map_option counters (processingStatus (fst (startProcessing api clk request s))) =
     Some (0, 0, 0, 0)"
  by (simp add: startProcessing_def Let_def failProcessing_def counters_def split: sum.splits)

lemma startProcessing_consistent:
  "snapshotConsistent s \<Longrightarrow> snapshotConsistent (fst (startProcessing api clk request s))"
  by (simp add: startProcessing_def Let_def failProcessing_def snapshotConsistent_def
      countersConsistent_def split: sum.splits)

lemma retryFromError_consistent:
  assumes "snapshotConsistent s"
  shows "snapshotConsistent (fst (retryFromError api clk s))"
proof -
  have "snapshotConsistent (clearWorkflowError s)"
    using assms by (simp add: snapshotConsistent_def clearWorkflowError_def)
  with assms show ?thesis
    by (simp add: retryFromError_def Let_def startProcessing_consistent
        split: option.splits WorkflowPhase.splits)
qed

lemma transitionToPhase_consistent:
  "snapshotConsistent s \<Longrightarrow> snapshotConsistent (snd (transitionToPhase p s))"
  by (cases p)
     (simp_all add: transitionToPhase_def setWorkflowPhase_def enableChat_def
        snapshotConsistent_def)

lemma act_consistent:
  "snapshotConsistent s \<Longrightarrow> suppliesConsistent a \<Longrightarrow> snapshotConsistent (act a s)"
proof (cases a)
  case (StartProcessing api clk request)
  assume "snapshotConsistent s"
  with StartProcessing show ?thesis by (simp add: startProcessing_consistent)
next
  case (UpdateProcessingStatus status)
  assume "suppliesConsistent a"
  with UpdateProcessingStatus show ?thesis
    by (simp add: snapshotConsistent_def updateProcessingStatus_stores)
next
  case (CompleteProcessing now ctx)
  assume "suppliesConsistent a"
  with CompleteProcessing show ?thesis
    by (simp add: snapshotConsistent_def completeProcessing_stores)
next
  case (FailProcessing t1 t2 err details)
  assume "snapshotConsistent s"
  with FailProcessing show ?thesis
    by (simp add: snapshotConsistent_def failProcessing_def countersConsistent_def
        split: option.splits)
next
  case (TransitionToPhase p)
  assume "snapshotConsistent s"
  with TransitionToPhase show ?thesis by (simp add: transitionToPhase_consistent)
next
  case (RetryFromError api clk)
  assume "snapshotConsistent s"
  with RetryFromError show ?thesis by (simp add: retryFromError_consistent)
qed (simp_all add: snapshotConsistent_def updateProcessingProgress_def resetWorkflow_def
      setWorkflowPhase_def handleWorkflowError_def clearWorkflowError_def addMessage_def
      setIsTyping_def sendMessage_def Let_def clearMessages_def setCurrentSession_def
      enableChat_def disableChat_def selectCompany_def removeSelectedCompany_def
      clearSelectedCompanies_def cacheCompany_def markCompanyAsProcessed_def
      setSidebarOpen_def openCitation_def closeCitationPanel_def)

lemma states_consistent:
  "snapshotConsistent s \<Longrightarrow> list_all suppliesConsistent as \<Longrightarrow>
   list_all snapshotConsistent (states as s)"
  by (induction as arbitrary: s) (simp_all add: act_consistent)

text \<open>
  C4 (as amended). The store keeps the counters it is given and checks neither
  inequality, so the invariant holds of what the store shows when it holds of what the
  store is given: if every status handed to the store satisfies
  \<open>documentsProcessed \<le> documentsFound\<close> and \<open>chunksVectorized \<le> chunksCreated\<close>, then
  so does every snapshot observed over every run of store actions, from the initial
  state as from any state whose snapshot satisfies them, and so does the snapshot
  after every \<^verbatim>\<open>fetchStatus\<close> (for the status in the answer and, when the request
  fails, for the status the hook had captured). The snapshot after
  \<^verbatim>\<open>updateProcessingStatus\<close> is the status supplied, and the status that an
  accepted \<^verbatim>\<open>startProcessing\<close> creates has all four counters at zero.
\<close>

theorem counters_as_supplied:
  "processingStatus (updateProcessingStatus status s) = Some status \<and>
   (countersConsistent status \<longrightarrow> snapshotConsistent (updateProcessingStatus status s)) \<and>
   (snapshotConsistent s \<and> list_all suppliesConsistent as \<longrightarrow>
      list_all snapshotConsistent (states as s)) \<and>
   (list_all suppliesConsistent as \<longrightarrow> list_all snapshotConsistent (states as initialState)) \<and>
   (countersConsistent (sd_status d) \<longrightarrow>
      snapshotConsistent (fst (snd (fetchStatus now captured (Inr d) (s, h))))) \<and>
   (snapshotConsistent s \<and>
    (case captured of None \<Rightarrow> True | Some ps \<Rightarrow> countersConsistent ps) \<longrightarrow>
      snapshotConsistent (fst (snd (fetchStatus now captured (Inl e) (s, h))))) \<and>
   (canTransitionTo s Processing \<longrightarrow>
      map_option counters (processingStatus (fst (startProcessing api clk request s))) =
        Some (0, 0, 0, 0))"
proof (intro conjI impI)
  show "processingStatus (updateProcessingStatus status s) = Some status"
    by (rule updateProcessingStatus_stores)
  show "snapshotConsistent (updateProcessingStatus status s)" if "countersConsistent status"
    using that by (simp add: snapshotConsistent_def updateProcessingStatus_stores)
  show "list_all snapshotConsistent (states as s)"
    if "snapshotConsistent s \<and> list_all suppliesConsistent as"
    using that by (simp add: states_consistent)
  show "list_all snapshotConsistent (states as initialState)"
    if "list_all suppliesConsistent as"
    using that by (simp add: states_consistent snapshotConsistent_def initialState_def)
  show "snapshotConsistent (fst (snd (fetchStatus now captured (Inr d) (s, h))))"
    if "countersConsistent (sd_status d)"
    using that
    by (simp add: snapshotConsistent_def fetchStatus_def Let_def updateProcessingStatus_stores
        completeProcessing_stores)
  show "snapshotConsistent (fst (snd (fetchStatus now captured (Inl e) (s, h))))"
    if "snapshotConsistent s \<and>
        (case captured of None \<Rightarrow> True | Some ps \<Rightarrow> countersConsistent ps)"
    using that
    by (simp add: snapshotConsistent_def fetchStatus_def updateProcessingStatus_stores
        countersConsistent_def split: option.splits)
  show "map_option counters (processingStatus (fst (startProcessing api clk request s))) =
          Some (0, 0, 0, 0)"
    if "canTransitionTo s Processing"
    using that by (rule startProcessing_counters)
qed

theorem counters_as_supplied_witness:
  "countersConsistent (exampleStatus Parsing 12 11 0 0) \<and>
   snapshotConsistent (updateProcessingStatus (exampleStatus Parsing 12 11 0 0) processingState) \<and>
   snapshotConsistent processingState \<and>
   list_all suppliesConsistent
     [UpdateProcessingStatus (exampleStatus Parsing 12 11 0 0),
      FailProcessing 3000 3001 ''Network Error'' None, ResetWorkflow,
      StartProcessing (backend ''job-2'') (clockFrom 4000) exampleRequest,
      CompleteProcessing 5000 exampleContext] \<and>
   map (map_option counters \<circ> processingStatus)
     (states
        [UpdateProcessingStatus (exampleStatus Parsing 12 11 0 0),
         FailProcessing 3000 3001 ''Network Error'' None, ResetWorkflow,
         StartProcessing (backend ''job-2'') (clockFrom 4000) exampleRequest,
         CompleteProcessing 5000 exampleContext] processingState) =
     [Some (12, 11, 0, 0), Some (12, 11, 0, 0), None, Some (0, 0, 0, 0),
      Some (12, 11, 40, 40)] \<and>
   snapshotConsistent (fst (snd (fetchStatus 2000 None
      (Inr \<lparr>sd_status = exampleStatus Parsing 12 11 0 0, companyName = None,
            sd_timeRangeProcessed = None\<rparr>)
      (processingState, exampleRefs)))) \<and>
   snapshotConsistent (fst (snd (fetchStatus 2000 (Some (exampleStatus Parsing 12 11 0 0))
      (Inl (JsError ''Network Error'')) (processingState, exampleRefs)))) \<and>
   canTransitionTo initialState Processing \<and>
   map_option counters (processingStatus processingState) = Some (0, 0, 0, 0)"
  using counters_as_supplied
    [of "exampleStatus Parsing 12 11 0 0" processingState
        "[UpdateProcessingStatus (exampleStatus Parsing 12 11 0 0),
          FailProcessing 3000 3001 ''Network Error'' None, ResetWorkflow,
          StartProcessing (backend ''job-2'') (clockFrom 4000) exampleRequest,
          CompleteProcessing 5000 exampleContext]"
        "\<lparr>sd_status = exampleStatus Parsing 12 11 0 0, companyName = None,
          sd_timeRangeProcessed = None\<rparr>"
        2000 "Some (exampleStatus Parsing 12 11 0 0)" exampleRefs "JsError ''Network Error''"]
    counters_as_supplied
    [of _ initialState _ _ _ _ _ _ "backend ''job-1''" "clockFrom 1000" exampleRequest]
  by (simp add: example_defs store_defs fetchStatus_def countersConsistent_def
      snapshotConsistent_def counters_def resetWorkflow_def)

text \<open>
  The claim as it stands fails on a status whose counters are out of step: one with 5
  documents processed of 3 found is stored by \<^verbatim>\<open>updateProcessingStatus\<close> as it is,
  and one with 9 chunks vectorized of 4 created is stored by \<^verbatim>\<open>fetchStatus\<close>.
\<close>

theorem counters_counterexample:
  "processingStatus (updateProcessingStatus (exampleStatus Parsing 3 5 0 0) processingState) =
     Some (exampleStatus Parsing 3 5 0 0) \<and>
   documentsProcessed (exampleStatus Parsing 3 5 0 0) >
     documentsFound (exampleStatus Parsing 3 5 0 0) \<and>
   processingStatus (fst (snd (fetchStatus 2000 None
       (Inr \<lparr>sd_status = exampleStatus Vectorizing 3 3 4 9, companyName = None,
             sd_timeRangeProcessed = None\<rparr>)
       (processingState, exampleRefs)))) =
     Some (exampleStatus Vectorizing 3 3 4 9) \<and>
   chunksVectorized (exampleStatus Vectorizing 3 3 4 9) >
     chunksCreated (exampleStatus Vectorizing 3 3 4 9)"
  by (simp add: example_defs store_defs fetchStatus_def)

subsection \<open>Cancellation\<close>

text \<open>
  C5. For a job in progress (the status the hook has captured from the store has a phase
  that is not terminal), a cancel request that succeeds leaves the stored status in the
  \<open>Error\<close> phase with the reason \<open>Processing cancelled by user\<close>, which is neither
  the reason of a failed status request nor that of a failed start, and stops the
  polling: the timer is cleared and the polling flag is off.
\<close>

theorem cancelProcessing_marks_cancelled:
  assumes "captured = Some ps" and "phase ps \<noteq> Complete" and "phase ps \<noteq> Error"
  shows "cancelProcessing captured (Inr ()) (s, h) =
           (Inr (),
            s\<lparr>processingStatus :=
                Some (ps\<lparr>phase := Error, error := Some ''Processing cancelled by user''\<rparr>)\<rparr>,
            \<lparr>intervalRef = None, isPollingRef = False\<rparr>) \<and>
         ''Processing cancelled by user'' \<noteq> ''Failed to fetch processing status'' \<and>
         ''Processing cancelled by user'' \<noteq> ''Failed to start processing''"
  using assms
  by (simp add: cancelProcessing_def updateProcessingStatus_def Let_def stopPolling_def)

theorem cancelProcessing_marks_cancelled_witness:
  "processingStatus processingState = Some (exampleStatus Scraping 0 0 0 0) \<and>
   phase (exampleStatus Scraping 0 0 0 0) = Scraping \<and>
   map_option phase (processingStatus (fst (snd (cancelProcessing
      (processingStatus processingState) (Inr ()) (processingState, exampleRefs))))) =
     Some Error \<and>
   map_option error (processingStatus (fst (snd (cancelProcessing
      (processingStatus processingState) (Inr ()) (processingState, exampleRefs))))) =
     Some (Some ''Processing cancelled by user'') \<and>
   snd (snd (cancelProcessing
      (processingStatus processingState) (Inr ()) (processingState, exampleRefs))) =
     \<lparr>intervalRef = None, isPollingRef = False\<rparr>"
  using cancelProcessing_marks_cancelled
    [of "processingStatus processingState" "exampleStatus Scraping 0 0 0 0"
        processingState exampleRefs]
  by (simp add: example_defs store_defs)

subsection \<open>Answers and citations\<close>







subsection \<open>Progress and the estimate of the time remaining\<close>

lemma getCurrentStepIndex_cases:
  "getCurrentStepIndex st =
     (case phase st of Scraping \<Rightarrow> 0 | Parsing \<Rightarrow> 1 | Chunking \<Rightarrow> 2 | Vectorizing \<Rightarrow> 3
      | Complete \<Rightarrow> - 1 | Error \<Rightarrow> - 1)"
  by (cases "phase st") (simp_all add: getCurrentStepIndex_def findIndex_def PHASE_STEPS_def)

text \<open>
  C7 (as amended). \<^verbatim>\<open>getPhaseProgress\<close> is a function of the phase and the counters
  alone (not of the clock, nor of the progress or the estimate the server reports). It
  is the progress of the whole job: 25 for each phase already passed, plus 25 times the
  ratio of the current phase, capped at 100, where the ratio is
  \<open>documentsProcessed / documentsFound\<close> while scraping and parsing,
  \<open>chunksCreated / (10 * documentsProcessed)\<close> while chunking and
  \<open>chunksVectorized / chunksCreated\<close> while vectorizing, and the term of the ratio is 0
  when its denominator is not positive; it is 0 in the phases complete and error.
\<close>

theorem getPhaseProgress_formula:
  "getPhaseProgress st =
     (case phase st of
        Scraping \<Rightarrow>
          min (if documentsFound st > 0
               then real_of_int (documentsProcessed st) / real_of_int (documentsFound st) * 25
               else 0) 100
      | Parsing \<Rightarrow>
          min (25 + (if documentsFound st > 0
               then real_of_int (documentsProcessed st) / real_of_int (documentsFound st) * 25
               else 0)) 100
      | Chunking \<Rightarrow>
          min (50 + (if documentsProcessed st > 0
               then real_of_int (chunksCreated st) / real_of_int (documentsProcessed st * 10) * 25
               else 0)) 100
      | Vectorizing \<Rightarrow>
          min (75 + (if chunksCreated st > 0
               then real_of_int (chunksVectorized st) / real_of_int (chunksCreated st) * 25
               else 0)) 100
      | Complete \<Rightarrow> 0
      | Error \<Rightarrow> 0) \<and>
   getPhaseProgress (st\<lparr>progress := x, startedAt := t, completedAt := c,
                        estimatedTimeRemaining := e\<rparr>) = getPhaseProgress st"
  by (cases "phase st")
     (simp_all add: getPhaseProgress_def getCurrentStepIndex_cases Let_def PHASE_STEPS_def)

text \<open>
  The claim as it stands fails at 3 documents processed of 10 found while scraping,
  where the ratio is 3/10 and \<^verbatim>\<open>getPhaseProgress\<close> is 7.5; while parsing with no
  document found, where it is 25 and not 0; and at 10 chunks vectorized of 40 created,
  where the ratio is 1/4 and it is 81.25.
\<close>

theorem getPhaseProgress_counterexample:
  "getPhaseProgress (exampleStatus Scraping 10 3 0 0) = 15 / 2 \<and>
   real_of_int (documentsProcessed (exampleStatus Scraping 10 3 0 0)) /
     real_of_int (documentsFound (exampleStatus Scraping 10 3 0 0)) = 3 / 10 \<and>
   getPhaseProgress (exampleStatus Parsing 0 0 0 0) = 25 \<and>
   getPhaseProgress (exampleStatus Vectorizing 12 11 40 10) = 325 / 4 \<and>
   real_of_int (chunksVectorized (exampleStatus Vectorizing 12 11 40 10)) /
     real_of_int (chunksCreated (exampleStatus Vectorizing 12 11 40 10)) = 1 / 4"
  by (simp add: getPhaseProgress_def getCurrentStepIndex_cases Let_def PHASE_STEPS_def
      exampleStatus_def)

lemma getPhaseProgress_by_counters:
  "getPhaseProgress st =
     (case phase st of
        Scraping \<Rightarrow>
          min (if documentsFound st > 0
               then real_of_int (documentsProcessed st) / real_of_int (documentsFound st) * 25
               else 0) 100
      | Parsing \<Rightarrow>
          min (25 + (if documentsFound st > 0
               then real_of_int (documentsProcessed st) / real_of_int (documentsFound st) * 25
               else 0)) 100
      | Chunking \<Rightarrow>
          min (50 + (if documentsProcessed st > 0
               then real_of_int (chunksCreated st) / real_of_int (documentsProcessed st * 10) * 25
               else 0)) 100
      | Vectorizing \<Rightarrow>
          min (75 + (if chunksCreated st > 0
               then real_of_int (chunksVectorized st) / real_of_int (chunksCreated st) * 25
               else 0)) 100
      | Complete \<Rightarrow> 0
      | Error \<Rightarrow> 0)"
  by (cases "phase st")
     (simp_all add: getPhaseProgress_def getCurrentStepIndex_cases Let_def PHASE_STEPS_def)

lemma updateProcessingStatus_ignores_estimate:
  "canTransitionTo (updateProcessingStatus (st\<lparr>estimatedTimeRemaining := e\<rparr>) s) p =
     canTransitionTo (updateProcessingStatus st s) p \<and>
   currentPhase (updateProcessingStatus (st\<lparr>estimatedTimeRemaining := e\<rparr>) s) =
     currentPhase (updateProcessingStatus st s) \<and>
   map_option phase (processingStatus (updateProcessingStatus (st\<lparr>estimatedTimeRemaining := e\<rparr>) s)) =
     map_option phase (processingStatus (updateProcessingStatus st s))"
  by (cases p)
     (simp_all add: updateProcessingStatus_def Let_def transitionToPhase_def
        setWorkflowPhase_def enableChat_def)

lemma fetchStatus_ignores_estimate:
  "snd (snd (fetchStatus now captured
       (Inr (d\<lparr>sd_status := (sd_status d)\<lparr>estimatedTimeRemaining := e\<rparr>\<rparr>)) (s, h))) =
     snd (snd (fetchStatus now captured (Inr d) (s, h))) \<and>
   currentPhase (fst (snd (fetchStatus now captured
       (Inr (d\<lparr>sd_status := (sd_status d)\<lparr>estimatedTimeRemaining := e\<rparr>\<rparr>)) (s, h)))) =
     currentPhase (fst (snd (fetchStatus now captured (Inr d) (s, h)))) \<and>
   map_option phase (processingStatus (fst (snd (fetchStatus now captured
       (Inr (d\<lparr>sd_status := (sd_status d)\<lparr>estimatedTimeRemaining := e\<rparr>\<rparr>)) (s, h))))) =
     map_option phase (processingStatus (fst (snd (fetchStatus now captured (Inr d) (s, h)))))"
  by (simp add: fetchStatus_def Let_def updateProcessingStatus_def transitionToPhase_def
      setWorkflowPhase_def enableChat_def completeProcessing_def markCompanyAsProcessed_def)

lemma cancelProcessing_ignores_estimate:
  "fst (cancelProcessing (map_option (\<lambda>ps. ps\<lparr>estimatedTimeRemaining := e\<rparr>) captured)
          response (s, h)) =
     fst (cancelProcessing captured response (s, h)) \<and>
   snd (snd (cancelProcessing (map_option (\<lambda>ps. ps\<lparr>estimatedTimeRemaining := e\<rparr>) captured)
          response (s, h))) =
     snd (snd (cancelProcessing captured response (s, h))) \<and>
   currentPhase (fst (snd (cancelProcessing
          (map_option (\<lambda>ps. ps\<lparr>estimatedTimeRemaining := e\<rparr>) captured) response (s, h)))) =
     currentPhase (fst (snd (cancelProcessing captured response (s, h)))) \<and>
   map_option phase (processingStatus (fst (snd (cancelProcessing
          (map_option (\<lambda>ps. ps\<lparr>estimatedTimeRemaining := e\<rparr>) captured) response (s, h))))) =
     map_option phase (processingStatus (fst (snd (cancelProcessing captured response (s, h)))))"
  by (cases response; cases captured)
     (simp_all add: cancelProcessing_def updateProcessingStatus_def Let_def)

lemma panelView_ignores_estimate:
  "pollingEnabled (panelView u c rate elapsed (st\<lparr>estimatedTimeRemaining := e\<rparr>)) =
     pollingEnabled (panelView u c rate' elapsed' st) \<and>
   cancelOffered (panelView u c rate elapsed (st\<lparr>estimatedTimeRemaining := e\<rparr>)) =
     cancelOffered (panelView u c rate' elapsed' st)"
  by (simp add: panelView_def Let_def)

text \<open>
  C8. For a status without an estimate from the server,
  \<^verbatim>\<open>calculateEstimatedTimeRemaining\<close> returns an estimate exactly when more than 30
  seconds have elapsed, the processing rate is positive and the progress lies strictly
  between 0 and 100. The estimate is computed from the throughput observed so far: the
  progress is the one the counters of the status give (25 for each phase passed plus
  25 times the ratio of the counters of the current phase), and the estimate is the
  progress that remains divided by the progress made per elapsed second; it is not
  negative. The estimate is advisory: whatever estimate a status carries,
  \<^verbatim>\<open>updateProcessingStatus\<close>, \<^verbatim>\<open>fetchStatus\<close> and \<^verbatim>\<open>cancelProcessing\<close> reach
  the same workflow phase and the same phase of the job, permit the same transitions
  and leave the polling in the same state; and whatever the rate, the elapsed time and
  the estimate are, the panel passes the same polling flag to the hook and offers the
  cancel button in the same cases.
\<close>

theorem estimate_advisory:
  assumes "estimatedTimeRemaining st = None"
  shows "(calculateEstimatedTimeRemaining rate elapsed st \<noteq> None \<longleftrightarrow>
            rate > 0 \<and> elapsed > 30 \<and> 0 < getPhaseProgress st \<and> getPhaseProgress st < 100) \<and>
         getPhaseProgress st =
           (case phase st of
              Scraping \<Rightarrow>
                min (if documentsFound st > 0
                     then real_of_int (documentsProcessed st) /
                          real_of_int (documentsFound st) * 25
                     else 0) 100
            | Parsing \<Rightarrow>
                min (25 + (if documentsFound st > 0
                     then real_of_int (documentsProcessed st) /
                          real_of_int (documentsFound st) * 25
                     else 0)) 100
            | Chunking \<Rightarrow>
                min (50 + (if documentsProcessed st > 0
                     then real_of_int (chunksCreated st) /
                          real_of_int (documentsProcessed st * 10) * 25
                     else 0)) 100
            | Vectorizing \<Rightarrow>
                min (75 + (if chunksCreated st > 0
                     then real_of_int (chunksVectorized st) /
                          real_of_int (chunksCreated st) * 25
                     else 0)) 100
            | Complete \<Rightarrow> 0
            | Error \<Rightarrow> 0) \<and>
         (\<forall>est. calculateEstimatedTimeRemaining rate elapsed st = Some est \<longrightarrow>
            est = (100 - getPhaseProgress st) / (getPhaseProgress st / real_of_int elapsed) \<and>
            est \<ge> 0) \<and>
         canTransitionTo (updateProcessingStatus (st\<lparr>estimatedTimeRemaining := e\<rparr>) s) p =
           canTransitionTo (updateProcessingStatus st s) p \<and>
         currentPhase (updateProcessingStatus (st\<lparr>estimatedTimeRemaining := e\<rparr>) s) =
           currentPhase (updateProcessingStatus st s) \<and>
         map_option phase
           (processingStatus (updateProcessingStatus (st\<lparr>estimatedTimeRemaining := e\<rparr>) s)) =
           map_option phase (processingStatus (updateProcessingStatus st s)) \<and>
         snd (snd (fetchStatus now captured
             (Inr (d\<lparr>sd_status := (sd_status d)\<lparr>estimatedTimeRemaining := e\<rparr>\<rparr>)) (s, h))) =
           snd (snd (fetchStatus now captured (Inr d) (s, h))) \<and>
         currentPhase (fst (snd (fetchStatus now captured
             (Inr (d\<lparr>sd_status := (sd_status d)\<lparr>estimatedTimeRemaining := e\<rparr>\<rparr>)) (s, h)))) =
           currentPhase (fst (snd (fetchStatus now captured (Inr d) (s, h)))) \<and>
         map_option phase (processingStatus (fst (snd (fetchStatus now captured
             (Inr (d\<lparr>sd_status := (sd_status d)\<lparr>estimatedTimeRemaining := e\<rparr>\<rparr>)) (s, h))))) =
           map_option phase
             (processingStatus (fst (snd (fetchStatus now captured (Inr d) (s, h))))) \<and>
         fst (cancelProcessing (map_option (\<lambda>ps. ps\<lparr>estimatedTimeRemaining := e\<rparr>) captured)
                response (s, h)) =
           fst (cancelProcessing captured response (s, h)) \<and>
         snd (snd (cancelProcessing
                (map_option (\<lambda>ps. ps\<lparr>estimatedTimeRemaining := e\<rparr>) captured)
                response (s, h))) =
           snd (snd (cancelProcessing captured response (s, h))) \<and>
         currentPhase (fst (snd (cancelProcessing
                (map_option (\<lambda>ps. ps\<lparr>estimatedTimeRemaining := e\<rparr>) captured)
                response (s, h)))) =
           currentPhase (fst (snd (cancelProcessing captured response (s, h)))) \<and>
         map_option phase (processingStatus (fst (snd (cancelProcessing
                (map_option (\<lambda>ps. ps\<lparr>estimatedTimeRemaining := e\<rparr>) captured)
                response (s, h))))) =
           map_option phase
             (processingStatus (fst (snd (cancelProcessing captured response (s, h))))) \<and>
         pollingEnabled (panelView u c rate elapsed (st\<lparr>estimatedTimeRemaining := e\<rparr>)) =
           pollingEnabled (panelView u c rate' elapsed' st) \<and>
         cancelOffered (panelView u c rate elapsed (st\<lparr>estimatedTimeRemaining := e\<rparr>)) =
           cancelOffered (panelView u c rate' elapsed' st)"
proof -
  have a: "calculateEstimatedTimeRemaining rate elapsed st \<noteq> None \<longleftrightarrow>
            rate > 0 \<and> elapsed > 30 \<and> 0 < getPhaseProgress st \<and> getPhaseProgress st < 100"
    using assms by (auto simp add: calculateEstimatedTimeRemaining_def Let_def)
  have b: "est = (100 - getPhaseProgress st) / (getPhaseProgress st / real_of_int elapsed) \<and>
           est \<ge> 0"
    if h: "calculateEstimatedTimeRemaining rate elapsed st = Some est" for est
  proof -
    from h assms have g: "elapsed > 30" "0 < getPhaseProgress st" "getPhaseProgress st < 100"
      and v: "est = max ((100 - getPhaseProgress st) / getPhaseProgress st *
                real_of_int elapsed) 0"
      by (auto simp add: calculateEstimatedTimeRemaining_def Let_def split: if_splits)
    from g have "0 < (100 - getPhaseProgress st) / getPhaseProgress st * real_of_int elapsed"
      by simp
    with v show ?thesis by simp
  qed
  from b have b': "\<forall>est. calculateEstimatedTimeRemaining rate elapsed st = Some est \<longrightarrow>
            est = (100 - getPhaseProgress st) / (getPhaseProgress st / real_of_int elapsed) \<and>
            est \<ge> 0"
    by blast
  note c = updateProcessingStatus_ignores_estimate [where st = st and e = e and s = s and p = p]
  note d = fetchStatus_ignores_estimate
    [where now = now and captured = captured and d = d and e = e and s = s and h = h]
  note f = cancelProcessing_ignores_estimate
    [where captured = captured and e = e and response = response and s = s and h = h]
  note g = panelView_ignores_estimate
    [where u = u and c = c and rate = rate and elapsed = elapsed and st = st and e = e
       and rate' = rate' and elapsed' = elapsed']
  show ?thesis
    apply (intro conjI)
    apply (rule a)
    apply (rule getPhaseProgress_by_counters)
    apply (rule b')
    using c d f g apply simp_all
    done
qed

theorem estimate_advisory_witness:
  "estimatedTimeRemaining (exampleStatus Scraping 10 3 0 0) = None \<and>
   getPhaseProgress (exampleStatus Scraping 10 3 0 0) = 15 / 2 \<and>
   calculateEstimatedTimeRemaining 3 60 (exampleStatus Scraping 10 3 0 0) = Some 740 \<and>
   calculateEstimatedTimeRemaining 3 60 (exampleStatus Scraping 10 6 0 0) = Some 340 \<and>
   calculateEstimatedTimeRemaining 3 30 (exampleStatus Scraping 10 3 0 0) = None \<and>
   calculateEstimatedTimeRemaining 0 60 (exampleStatus Scraping 10 3 0 0) = None \<and>
   calculateEstimatedTimeRemaining 3 60 (exampleStatus Scraping 10 0 0 0) = None"
  using estimate_advisory [of "exampleStatus Scraping 10 3 0 0" 3 60]
  by (simp add: calculateEstimatedTimeRemaining_def getPhaseProgress_def
      getCurrentStepIndex_cases Let_def PHASE_STEPS_def exampleStatus_def)

subsection \<open>Resetting the workflow\<close>

text \<open>
  C9. \<^verbatim>\<open>resetWorkflow\<close> puts the workflow, processing and chat fields it names back
  to their initial values and empties \<open>processedCompanies\<close>; \<open>selectedCompanies\<close>,
  \<open>companyCache\<close>, \<open>sidebarOpen\<close>, \<open>citationPanelOpen\<close> and \<open>currentCitation\<close> keep
  their values (and so does \<open>isTyping\<close>, the one remaining field).
\<close>

theorem resetWorkflow_frame:
  "currentPhase (resetWorkflow s) = Input \<and>
   previousPhase (resetWorkflow s) = None \<and>
   selectedTicker (resetWorkflow s) = [] \<and>
   selectedTimeRange (resetWorkflow s) = Years3 \<and>
   processingStatus (resetWorkflow s) = None \<and>
   processingProgress (resetWorkflow s) = None \<and>
   processingJobId (resetWorkflow s) = None \<and>
   processingStartTime (resetWorkflow s) = None \<and>
   processingEndTime (resetWorkflow s) = None \<and>
   messages (resetWorkflow s) = [] \<and>
   companyContext (resetWorkflow s) = None \<and>
   currentSession (resetWorkflow s) = [] \<and>
   chatEnabled (resetWorkflow s) = False \<and>
   workflowError (resetWorkflow s) = None \<and>
   processedCompanies (resetWorkflow s) = {} \<and>
   selectedCompanies (resetWorkflow s) = selectedCompanies s \<and>
   companyCache (resetWorkflow s) = companyCache s \<and>
   sidebarOpen (resetWorkflow s) = sidebarOpen s \<and>
   citationPanelOpen (resetWorkflow s) = citationPanelOpen s \<and>
   currentCitation (resetWorkflow s) = currentCitation s \<and>
   isTyping (resetWorkflow s) = isTyping s"
  by (simp add: resetWorkflow_def)

subsection \<open>Selecting companies\<close>

lemma startProcessing_selected:
  "selectedCompanies (fst (startProcessing api clk r s)) = selectedCompanies s"
  by (simp add: startProcessing_def Let_def failProcessing_def split: sum.splits)

lemma retryFromError_selected:
  "selectedCompanies (fst (retryFromError api clk s)) = selectedCompanies s"
  by (simp add: retryFromError_def Let_def clearWorkflowError_def startProcessing_selected
      split: option.splits WorkflowPhase.splits)

lemma transitionToPhase_selected:
  "selectedCompanies (snd (transitionToPhase p s)) = selectedCompanies s"
  by (cases p) (simp_all add: transitionToPhase_def setWorkflowPhase_def enableChat_def)

lemma updateProcessingStatus_selected:
  "selectedCompanies (updateProcessingStatus st s) = selectedCompanies s"
  by (simp add: updateProcessingStatus_def Let_def transitionToPhase_selected)

lemma act_distinct_tickers:
  "distinct (map ticker (selectedCompanies s)) \<Longrightarrow>
   distinct (map ticker (selectedCompanies (act a s)))"
  by (cases a)
     (auto simp add: startProcessing_selected retryFromError_selected
        transitionToPhase_selected updateProcessingStatus_selected
        updateProcessingProgress_def completeProcessing_def markCompanyAsProcessed_def
        failProcessing_def resetWorkflow_def setWorkflowPhase_def handleWorkflowError_def
        clearWorkflowError_def addMessage_def setIsTyping_def sendMessage_def Let_def
        clearMessages_def setCurrentSession_def enableChat_def disableChat_def
        selectCompany_def removeSelectedCompany_def clearSelectedCompanies_def
        cacheCompany_def setSidebarOpen_def openCitation_def closeCitationPanel_def
        list_ex_iff distinct_map_filter)

lemma run_distinct_tickers:
  "distinct (map ticker (selectedCompanies s)) \<Longrightarrow>
   distinct (map ticker (selectedCompanies (run as s)))"
  by (induction as arbitrary: s) (simp_all add: act_distinct_tickers)

text \<open>
  C10. \<^verbatim>\<open>selectCompany\<close> returns the state unchanged when a company with the same
  ticker is selected already; selecting a company twice gives the state of selecting
  it once; and no two selected companies share a ticker: every action of the store
  keeps the tickers of \<open>selectedCompanies\<close> distinct, so they are distinct after every
  run of actions from the initial state.
\<close>

theorem selectCompany_idempotent:
  "(ticker company \<in> ticker ` set (selectedCompanies s) \<longrightarrow> selectCompany company s = s) \<and>
   selectCompany company (selectCompany company s) = selectCompany company s \<and>
   (distinct (map ticker (selectedCompanies s)) \<longrightarrow>
      distinct (map ticker (selectedCompanies (run as s)))) \<and>
   distinct (map ticker (selectedCompanies (run as initialState)))"
proof -
  have a: "selectCompany company s = s"
    if "ticker company \<in> ticker ` set (selectedCompanies s)"
    using that by (auto simp add: selectCompany_def list_ex_iff)
  have b: "selectCompany company (selectCompany company s) = selectCompany company s"
    by (simp add: selectCompany_def Let_def list_ex_iff)
  have c: "distinct (map ticker (selectedCompanies (run as initialState)))"
    by (rule run_distinct_tickers) (simp add: initialState_def)
  from a b c run_distinct_tickers show ?thesis by blast
qed

theorem selectCompany_idempotent_witness:
  "ticker (exampleCompany\<lparr>name := ''Acme Holdings''\<rparr>) \<in>
     ticker ` set (selectedCompanies (selectCompany exampleCompany initialState)) \<and>
   selectCompany (exampleCompany\<lparr>name := ''Acme Holdings''\<rparr>)
     (selectCompany exampleCompany initialState) = selectCompany exampleCompany initialState \<and>
   distinct (map ticker (selectedCompanies (selectCompany exampleCompany initialState))) \<and>
   distinct (map ticker (selectedCompanies
     (run [SelectCompany (exampleCompany\<lparr>name := ''Acme Holdings''\<rparr>),
           SelectCompany (exampleCompany\<lparr>ticker := ''INIT''\<rparr>),
           RemoveSelectedCompany ''ACME'']
        (selectCompany exampleCompany initialState)))) \<and>
   map ticker (selectedCompanies
     (run [SelectCompany (exampleCompany\<lparr>name := ''Acme Holdings''\<rparr>),
           SelectCompany (exampleCompany\<lparr>ticker := ''INIT''\<rparr>)]
        (selectCompany exampleCompany initialState))) = [''ACME'', ''INIT'']"
  using selectCompany_idempotent
    [of "exampleCompany\<lparr>name := ''Acme Holdings''\<rparr>"
        "selectCompany exampleCompany initialState"
        "[SelectCompany (exampleCompany\<lparr>name := ''Acme Holdings''\<rparr>),
          SelectCompany (exampleCompany\<lparr>ticker := ''INIT''\<rparr>),
          RemoveSelectedCompany ''ACME'']"]
  by (simp add: selectCompany_def initialState_def exampleCompany_def)

end
